theory Spec2Isabelle
  imports Main
begin

section \<open>The paginated load controller of \<open>useAdvancedInfiniteScroll.ts\<close>\<close>

text \<open>
  The hook keeps seven React state values, a handful of refs, and talks to three parts of
  its environment: the caller's \<open>fetchData\<close>, the timer table (\<open>setTimeout\<close>,
  \<open>clearTimeout\<close>) and abort controllers. The embedding passes one record through every
  handler. State setters take effect at once, and a handler reads the state of the latest
  render. The refs that mirror state (\<open>loadingRef\<close>, \<open>hasMoreRef\<close>) are separate
  fields, copied by \<open>syncRefs\<close>, the two effects that run when React commits a render;
  \<open>render\<close> is such a commit, with the initial-load effect run again when one of its
  dependencies changed. The asynchronous function \<open>fetchWithRetry\<close> is cut at its single
  \<open>await\<close>: \<open>fetchWithRetry\<close> is the part that runs up to the call of \<open>fetchData\<close>,
  \<open>fetchWithRetry_resume\<close> the part that runs when the promise settles. \<open>console.log\<close>
  calls are left out, page numbers, counts and delays are integers, and the two optional
  callbacks are taken not to throw.
\<close>

subsection \<open>Data\<close>

record config =
  initialPage :: int
  threshold :: int
  enabled :: bool
  has_onError :: bool
  has_onSuccess :: bool
  debounceMs :: int
  retryAttempts :: int
  retryDelay :: int

text \<open>What \<open>fetchData\<close> resolves with, and what a rejected promise carries.\<close>

record 'a fetch_result =
  res_data :: "'a list"
  res_hasMore :: bool
  res_total :: "int option"

datatype thrown = ThrownError string | ThrownOther

datatype 'a outcome = Resolved "'a fetch_result" | Rejected thrown

text \<open>\<open>err instanceof Error ? err : new Error("An error occurred")\<close>; an \<open>Error\<close> is its message.\<close>

fun toError :: "thrown \<Rightarrow> string" where
  "toError (ThrownError m) = m"
| "toError ThrownOther = ''An error occurred''"

text \<open>
  One call of \<open>fetchWithRetry\<close> that reached \<open>fetchData\<close>: the values its closure holds.
  An abort controller is the number it was created under.
\<close>

record request =
  req_signal :: nat
  req_page :: int
  req_isInitial :: bool
  req_retryCount :: nat

text \<open>
  The three callbacks the hook hands to \<open>setTimeout\<close>. The scroll callback closes over
  the \<open>currentPage\<close> of the render that built \<open>debouncedScrollHandler\<close>.
\<close>

datatype timer_action = RetryCallback request | ScrollCallback int | RefreshCallback

text \<open>Calls that leave the hook, in the order they are made.\<close>

datatype 'a effect =
    FetchData int nat
  | SetTimeout nat int
  | ClearTimeout nat
  | OnSuccess "'a list" int
  | OnError string

record 'a hook =
  data :: "'a list"
  loading :: bool
  error :: "string option"
  hasMore :: bool
  isRetrying :: bool
  currentPage :: int
  totalCount :: "int option"
  abortControllerRef :: "nat option"
  loadingRef :: bool
  hasMoreRef :: bool
  enabledRef :: bool
  retryCountRef :: nat
  debounceTimerRef :: "nat option"
  currentRequestPageRef :: "int option"
  isInitialLoadingRef :: bool
  initialLoadRef :: bool
  aborted :: "nat set"
  nextController :: nat
  inflight :: "request list"
  timers :: "(nat \<times> int \<times> timer_action) list"
  nextTimer :: nat
  effectDeps :: "nat \<times> bool"
  scrollTop :: int
  scrollHeight :: int
  clientHeight :: int
  trace :: "'a effect list"

text \<open>
  \<open>aborted\<close> holds the controllers whose \<open>abort()\<close> has been called, \<open>inflight\<close> the
  \<open>fetchData\<close> promises not yet settled, \<open>timers\<close> the pending timeouts (handle, delay,
  callback); \<open>effectDeps\<close> is what React remembers of the initial-load effect's
  dependency array from the last commit, \<open>data.length\<close> and \<open>loading\<close> (the other
  entries are options); \<open>scrollTop\<close>, \<open>scrollHeight\<close> and \<open>clientHeight\<close> are those
  of \<open>document.documentElement\<close>. Timer handles start at 1, as in a browser.
\<close>

definition init :: "config \<Rightarrow> 'a hook" where
  "init cfg =
     \<lparr> data = [], loading = False, error = None, hasMore = True, isRetrying = False,
       currentPage = initialPage cfg, totalCount = None,
       abortControllerRef = None, loadingRef = False, hasMoreRef = True,
       enabledRef = enabled cfg, retryCountRef = 0, debounceTimerRef = None,
       currentRequestPageRef = None, isInitialLoadingRef = False, initialLoadRef = False,
       aborted = {}, nextController = 0, inflight = [], timers = [], nextTimer = 1,
       effectDeps = (0, False), scrollTop = 0, scrollHeight = 0, clientHeight = 0, trace = [] \<rparr>"

text \<open>The state snapshot the hook returns to its caller.\<close>

definition snapshot ::
  "'a hook \<Rightarrow> 'a list \<times> bool \<times> string option \<times> bool \<times> bool \<times> int \<times> int option" where
  "snapshot s =
     (data s, loading s, error s, hasMore s, isRetrying s, currentPage s, totalCount s)"

text \<open>The snapshot while the first request for the initial page is in flight.\<close>

definition pending_snapshot ::
  "config \<Rightarrow> 'a list \<times> bool \<times> string option \<times> bool \<times> bool \<times> int \<times> int option" where
  "pending_snapshot cfg = ([], True, None, True, False, initialPage cfg, None)"

subsection \<open>The environment's primitives\<close>

text \<open>\<open>if (abortControllerRef.current) abortControllerRef.current.abort()\<close>\<close>

definition abortCurrent :: "'a hook \<Rightarrow> 'a hook" where
  "abortCurrent s =
     (case abortControllerRef s of
        None \<Rightarrow> s
      | Some c \<Rightarrow> s\<lparr>aborted := insert c (aborted s)\<rparr>)"

text \<open>\<open>setTimeout\<close> returns the handle \<open>nextTimer s\<close>.\<close>

definition setTimeout :: "timer_action \<Rightarrow> int \<Rightarrow> 'a hook \<Rightarrow> 'a hook" where
  "setTimeout act delay s =
     s\<lparr> timers := timers s @ [(nextTimer s, delay, act)],
        nextTimer := Suc (nextTimer s),
        trace := trace s @ [SetTimeout (nextTimer s) delay] \<rparr>"

definition clearTimeout :: "nat \<Rightarrow> 'a hook \<Rightarrow> 'a hook" where
  "clearTimeout t s =
     s\<lparr> timers := filter (\<lambda>(i, d, a). i \<noteq> t) (timers s),
        trace := trace s @ [ClearTimeout t] \<rparr>"

text \<open>
  \<open>if (debounceTimerRef.current) clearTimeout(debounceTimerRef.current)\<close>: the test is
  JavaScript truthiness, so a handle 0 would count as absent.
\<close>

definition clearDebounce :: "'a hook \<Rightarrow> 'a hook" where
  "clearDebounce s =
     (case debounceTimerRef s of
        None \<Rightarrow> s
      | Some t \<Rightarrow> if t \<noteq> 0 then clearTimeout t s else s)"

subsection \<open>\<open>fetchWithRetry\<close>\<close>

text \<open>Up to the \<open>await\<close>: the three guards, the markers, the new abort controller, the call.\<close>

definition fetchWithRetry :: "config \<Rightarrow> int \<Rightarrow> bool \<Rightarrow> nat \<Rightarrow> 'a hook \<Rightarrow> 'a hook" where
  "fetchWithRetry cfg page isInitial retryCount s =
     (if \<not> enabledRef s \<or> loadingRef s then s
      else if currentRequestPageRef s = Some page \<and> \<not> isInitial then s
      else if isInitial \<and> isInitialLoadingRef s then s
      else
        let s1 = s\<lparr> currentRequestPageRef := Some page,
                    isInitialLoadingRef := (if isInitial then True else isInitialLoadingRef s) \<rparr>;
            s2 = abortCurrent s1;
            signal = nextController s2;
            s3 = s2\<lparr> abortControllerRef := Some signal, nextController := Suc signal \<rparr>;
            s4 = s3\<lparr> loading := True, error := None \<rparr>;
            s5 = (if 0 < retryCount then s4\<lparr>isRetrying := True\<rparr> else s4)
        in s5\<lparr> inflight := inflight s5 @
                   [\<lparr> req_signal = signal, req_page = page,
                      req_isInitial = isInitial, req_retryCount = retryCount \<rparr>],
                trace := trace s5 @ [FetchData page signal] \<rparr>)"

text \<open>The \<open>finally\<close> block. It runs on every way out of \<open>try\<close> and \<open>catch\<close>, \<open>return\<close> included.\<close>

definition finallyBlock :: "request \<Rightarrow> 'a hook \<Rightarrow> 'a hook" where
  "finallyBlock req s =
     (if req_signal req \<notin> aborted s
      then s\<lparr> loading := False,
              currentRequestPageRef := None,
              isInitialLoadingRef :=
                (if req_isInitial req then False else isInitialLoadingRef s) \<rparr>
      else s)"

text \<open>After the \<open>await\<close>: the \<open>try\<close> body on a resolved promise, \<open>catch\<close> on a rejected one.\<close>

definition fetchWithRetry_resume ::
  "config \<Rightarrow> request \<Rightarrow> 'a outcome \<Rightarrow> 'a hook \<Rightarrow> 'a hook" where
  "fetchWithRetry_resume cfg req out s =
     (case out of
        Resolved result \<Rightarrow>
          if req_signal req \<in> aborted s then finallyBlock req s
          else
            let s1 = s\<lparr> data := (if req_isInitial req then res_data result
                                  else data s @ res_data result),
                        hasMore := res_hasMore result,
                        currentPage := req_page req \<rparr>;
                s2 = (case res_total result of
                        None \<Rightarrow> s1
                      | Some n \<Rightarrow> s1\<lparr>totalCount := Some n\<rparr>);
                s3 = s2\<lparr> retryCountRef := 0, isRetrying := False \<rparr>;
                s4 = (if has_onSuccess cfg
                      then s3\<lparr>trace := trace s3 @ [OnSuccess (res_data result) (req_page req)]\<rparr>
                      else s3)
            in finallyBlock req s4
      | Rejected err \<Rightarrow>
          if req_signal req \<in> aborted s then finallyBlock req s
          else if int (req_retryCount req) < retryAttempts cfg \<and> req_signal req \<notin> aborted s
          then
            finallyBlock req
              (setTimeout (RetryCallback req) (retryDelay cfg * 2 ^ req_retryCount req)
                 (s\<lparr>retryCountRef := req_retryCount req + 1\<rparr>))
          else
            let s1 = s\<lparr> error := Some (toError err), isRetrying := False \<rparr>;
                s2 = (if has_onError cfg
                      then s1\<lparr>trace := trace s1 @ [OnError (toError err)]\<rparr>
                      else s1)
            in finallyBlock req s2)"

subsection \<open>Timer callbacks\<close>

text \<open>
  The retry callback re-enters \<open>fetchWithRetry\<close> unless its signal was aborted meanwhile; the
  scroll callback is the body inside \<open>debouncedScrollHandler\<close>; the refresh callback is
  the one \<open>refresh\<close> schedules.
\<close>

fun timerCallback :: "config \<Rightarrow> timer_action \<Rightarrow> 'a hook \<Rightarrow> 'a hook" where
  "timerCallback cfg (RetryCallback req) s =
     (if req_signal req \<notin> aborted s
      then fetchWithRetry cfg (req_page req) (req_isInitial req) (req_retryCount req + 1) s
      else s)"
| "timerCallback cfg (ScrollCallback page) s =
     (if scrollTop s + clientHeight s \<ge> scrollHeight s - threshold cfg
         \<and> \<not> loadingRef s \<and> hasMoreRef s \<and> enabledRef s
         \<and> currentRequestPageRef s = None
      then fetchWithRetry cfg (page + 1) False 0 s
      else s)"
| "timerCallback cfg RefreshCallback s = fetchWithRetry cfg (initialPage cfg) True 0 s"

subsection \<open>Triggers and public methods\<close>

definition debouncedScrollHandler :: "config \<Rightarrow> 'a hook \<Rightarrow> 'a hook" where
  "debouncedScrollHandler cfg s =
     (let s1 = clearDebounce s;
          t = nextTimer s1
      in (setTimeout (ScrollCallback (currentPage s)) (debounceMs cfg) s1)
           \<lparr>debounceTimerRef := Some t\<rparr>)"

text \<open>The intersection observer's callback, for \<open>entries[0].isIntersecting\<close>.\<close>

definition observerCallback :: "config \<Rightarrow> bool \<Rightarrow> 'a hook \<Rightarrow> 'a hook" where
  "observerCallback cfg isIntersecting s =
     (if isIntersecting \<and> \<not> loadingRef s \<and> hasMoreRef s \<and> enabledRef s
         \<and> currentRequestPageRef s = None
      then fetchWithRetry cfg (currentPage s + 1) False 0 s
      else s)"

definition handleVisibilityChange :: "config \<Rightarrow> bool \<Rightarrow> 'a hook \<Rightarrow> 'a hook" where
  "handleVisibilityChange cfg hidden s =
     (if hidden then s\<lparr>enabledRef := False\<rparr> else s\<lparr>enabledRef := enabled cfg\<rparr>)"

definition loadMore :: "config \<Rightarrow> 'a hook \<Rightarrow> 'a hook" where
  "loadMore cfg s =
     (if \<not> loading s \<and> hasMore s \<and> enabled cfg \<and> currentRequestPageRef s = None
      then fetchWithRetry cfg (currentPage s + 1) False 0 s
      else s)"

definition retry :: "config \<Rightarrow> 'a hook \<Rightarrow> 'a hook" where
  "retry cfg s =
     (if error s \<noteq> None then fetchWithRetry cfg (currentPage s) False 0 s else s)"

definition reset :: "config \<Rightarrow> 'a hook \<Rightarrow> 'a hook" where
  "reset cfg s =
     (clearDebounce (abortCurrent s))
       \<lparr> data := [], loading := False, error := None, hasMore := True,
         isRetrying := False, currentPage := initialPage cfg, totalCount := None,
         retryCountRef := 0,
         currentRequestPageRef := None, isInitialLoadingRef := False,
         initialLoadRef := False \<rparr>"

definition refresh :: "config \<Rightarrow> 'a hook \<Rightarrow> 'a hook" where
  "refresh cfg s = setTimeout RefreshCallback 0 (reset cfg s)"

subsection \<open>Effects\<close>

text \<open>The effects that copy \<open>loading\<close> and \<open>hasMore\<close> into their refs after a render.\<close>

definition syncRefs :: "'a hook \<Rightarrow> 'a hook" where
  "syncRefs s = s\<lparr> loadingRef := loading s, hasMoreRef := hasMore s \<rparr>"

text \<open>\<open>enabledRef.current = enabled\<close>, run when the \<open>enabled\<close> option changes.\<close>

definition enabledEffect :: "config \<Rightarrow> 'a hook \<Rightarrow> 'a hook" where
  "enabledEffect cfg s = s\<lparr>enabledRef := enabled cfg\<rparr>"

text \<open>The effect on \<open>resetDependencies\<close>, given the length of that array.\<close>

definition resetDependenciesEffect :: "config \<Rightarrow> nat \<Rightarrow> 'a hook \<Rightarrow> 'a hook" where
  "resetDependenciesEffect cfg n s = (if 0 < n then reset cfg s else s)"

definition initialLoadEffect :: "config \<Rightarrow> 'a hook \<Rightarrow> 'a hook" where
  "initialLoadEffect cfg s =
     (if enabled cfg \<and> length (data s) = 0 \<and> \<not> loading s
         \<and> \<not> initialLoadRef s \<and> \<not> isInitialLoadingRef s
      then fetchWithRetry cfg (initialPage cfg) True 0 (s\<lparr>initialLoadRef := True\<rparr>)
      else s)"

text \<open>
  React commits a render. The two copying effects run, and the initial-load effect runs
  if \<open>data.length\<close> or \<open>loading\<close> is not what it was at the last commit. When that
  effect starts a load, \<open>loading\<close> changes and React renders once more: \<open>commit\<close> is
  a render and the render it may cause. On mount every effect runs:
  \<open>initialLoadEffect\<close> is applied to \<open>init\<close>.
\<close>

definition render :: "config \<Rightarrow> 'a hook \<Rightarrow> 'a hook" where
  "render cfg s =
     (let s1 = syncRefs s;
          deps = (length (data s1), loading s1)
      in if effectDeps s1 = deps then s1
         else initialLoadEffect cfg (s1\<lparr>effectDeps := deps\<rparr>))"

definition commit :: "config \<Rightarrow> 'a hook \<Rightarrow> 'a hook" where
  "commit cfg s = render cfg (render cfg s)"

text \<open>The cleanup of the mount effect.\<close>

definition unmount :: "'a hook \<Rightarrow> 'a hook" where
  "unmount s = clearDebounce (abortCurrent s)"

subsection \<open>The event loop\<close>

text \<open>
  A promise of \<open>fetchData\<close> settles: the continuation of the call that awaits it runs.
  A timeout fires: its callback runs, and the handle is no longer pending.
\<close>

definition settle :: "config \<Rightarrow> nat \<Rightarrow> 'a outcome \<Rightarrow> 'a hook \<Rightarrow> 'a hook" where
  "settle cfg c out s =
     (case find (\<lambda>r. req_signal r = c) (inflight s) of
        None \<Rightarrow> s
      | Some req \<Rightarrow>
          fetchWithRetry_resume cfg req out
            (s\<lparr>inflight := filter (\<lambda>r. req_signal r \<noteq> c) (inflight s)\<rparr>))"

definition fireTimer :: "config \<Rightarrow> nat \<Rightarrow> 'a hook \<Rightarrow> 'a hook" where
  "fireTimer cfg t s =
     (case find (\<lambda>(i, d, a). i = t) (timers s) of
        None \<Rightarrow> s
      | Some (i, d, a) \<Rightarrow>
          timerCallback cfg a (s\<lparr>timers := filter (\<lambda>(i, d, a). i \<noteq> t) (timers s)\<rparr>))"

text \<open>A scroll event: the listener is attached only while the \<open>enabled\<close> option holds.\<close>

definition scrollEvent :: "config \<Rightarrow> int \<Rightarrow> int \<Rightarrow> int \<Rightarrow> 'a hook \<Rightarrow> 'a hook" where
  "scrollEvent cfg st sh ch s =
     (let s1 = s\<lparr> scrollTop := st, scrollHeight := sh, clientHeight := ch \<rparr>
      in if enabled cfg then debouncedScrollHandler cfg s1 else s1)"

datatype 'a event =
    LoadMore
  | Retry
  | Reset
  | Refresh
  | Settle nat "'a outcome"
  | Fire nat
  | Scroll int int int
  | Intersect bool
  | Visibility bool
  | Render
  | EnabledChanged
  | DependenciesChanged nat
  | InitialLoad
  | Unmount

fun step :: "config \<Rightarrow> 'a event \<Rightarrow> 'a hook \<Rightarrow> 'a hook" where
  "step cfg LoadMore s = loadMore cfg s"
| "step cfg Retry s = retry cfg s"
| "step cfg Reset s = reset cfg s"
| "step cfg Refresh s = refresh cfg s"
| "step cfg (Settle c out) s = settle cfg c out s"
| "step cfg (Fire t) s = fireTimer cfg t s"
| "step cfg (Scroll st sh ch) s = scrollEvent cfg st sh ch s"
| "step cfg (Intersect b) s = observerCallback cfg b s"
| "step cfg (Visibility hidden) s = handleVisibilityChange cfg hidden s"
| "step cfg Render s = render cfg s"
| "step cfg EnabledChanged s = enabledEffect cfg s"
| "step cfg (DependenciesChanged n) s = resetDependenciesEffect cfg n s"
| "step cfg InitialLoad s = initialLoadEffect cfg s"
| "step cfg Unmount s = unmount s"

text \<open>The events that run \<open>reset\<close>.\<close>

fun resets :: "'a event \<Rightarrow> bool" where
  "resets Reset = True"
| "resets Refresh = True"
| "resets (DependenciesChanged n) = (0 < n)"
| "resets _ = False"

text \<open>The controller whose signal a pending retry timeout will test.\<close>

fun retry_signal :: "nat \<times> int \<times> timer_action \<Rightarrow> nat option" where
  "retry_signal (i, d, RetryCallback r) = Some (req_signal r)"
| "retry_signal (i, d, ScrollCallback page) = None"
| "retry_signal (i, d, RefreshCallback) = None"

text \<open>
  Controllers and timer handles in use are older than the next ones to be handed out.
\<close>

definition wf :: "'a hook \<Rightarrow> bool" where
  "wf s \<longleftrightarrow>
     (\<forall>c \<in> aborted s. c < nextController s) \<and>
     (\<forall>c \<in> set_option (abortControllerRef s). c < nextController s) \<and>
     (\<forall>r \<in> set (inflight s). req_signal r < nextController s) \<and>
     (\<forall>t \<in> set (timers s).
        fst t < nextTimer s \<and> (\<forall>c \<in> set_option (retry_signal t). c < nextController s))"

subsection \<open>One load, run to its end\<close>

text \<open>
  \<open>runChain\<close> follows the request made under controller \<open>c\<close> with no event from
  outside: React commits, the promise settles with the next outcome, React commits again,
  and if that left a retry timeout for \<open>c\<close> pending, it fires and the request it makes
  is followed in turn. With no outcome left the request stays in flight.
\<close>

definition retryTimerOf :: "nat \<Rightarrow> 'a hook \<Rightarrow> nat option" where
  "retryTimerOf c s = map_option fst (find (\<lambda>t. retry_signal t = Some c) (timers s))"

definition attempt :: "config \<Rightarrow> nat \<Rightarrow> 'a outcome \<Rightarrow> 'a hook \<Rightarrow> 'a hook" where
  "attempt cfg c out s = commit cfg (settle cfg c out (commit cfg s))"

fun runChain :: "config \<Rightarrow> 'a outcome list \<Rightarrow> nat \<Rightarrow> 'a hook \<Rightarrow> 'a hook" where
  "runChain cfg [] c s = s"
| "runChain cfg (out # outs) c s =
     (let s1 = attempt cfg c out s
      in case retryTimerOf c s1 of
           None \<Rightarrow> s1
         | Some t \<Rightarrow>
             let s2 = fireTimer cfg t s1
             in if nextController s2 = nextController s1 then s2
                else runChain cfg outs (nextController s1) s2)"

text \<open>
  A trigger either returns at a guard or creates the controller \<open>nextController s\<close> and
  calls \<open>fetchData\<close>; in that case the load is followed to its end.
\<close>

definition runLoad ::
  "config \<Rightarrow> 'a outcome list \<Rightarrow> ('a hook \<Rightarrow> 'a hook) \<Rightarrow> 'a hook \<Rightarrow> 'a hook" where
  "runLoad cfg outs trigger s =
     (let s1 = trigger s
      in if nextController s1 = nextController s then s1
         else runChain cfg outs (nextController s) s1)"

text \<open>\<open>refresh\<close>, the commit that follows it, then the timeout \<open>refresh\<close> set.\<close>

definition afterRefresh :: "config \<Rightarrow> 'a hook \<Rightarrow> 'a hook" where
  "afterRefresh cfg s = fireTimer cfg (nextTimer (reset cfg s)) (commit cfg (refresh cfg s))"

text \<open>
  The state while the request made under controller \<open>c\<close> for page \<open>p\<close> is in flight and
  still wanted, in a hook whose initial load has been started.
\<close>

definition awaiting :: "'a hook \<Rightarrow> nat \<Rightarrow> int \<Rightarrow> bool \<Rightarrow> nat \<Rightarrow> bool" where
  "awaiting s c p i rc \<longleftrightarrow>
     wf s \<and> enabledRef s \<and> initialLoadRef s \<and> c \<notin> aborted s \<and>
     find (\<lambda>r. req_signal r = c) (inflight s) =
       Some \<lparr> req_signal = c, req_page = p, req_isInitial = i, req_retryCount = rc \<rparr> \<and>
     retryTimerOf c s = None"

subsection \<open>Sample inputs\<close>

text \<open>The hook's default options, with both callbacks supplied.\<close>

definition defaults :: config where
  "defaults =
     \<lparr> initialPage = 0, threshold = 300, enabled = True, has_onError = True,
       has_onSuccess = True, debounceMs = 200, retryAttempts = 3, retryDelay = 1000 \<rparr>"

definition page_a :: "nat fetch_result" where
  "page_a = \<lparr> res_data = [1, 2], res_hasMore = True, res_total = Some 10 \<rparr>"

definition page_b :: "nat fetch_result" where
  "page_b = \<lparr> res_data = [3, 4], res_hasMore = True, res_total = None \<rparr>"

definition offline :: thrown where
  "offline = ThrownError ''offline''"

text \<open>
  States of a session with these inputs: the first page requested; the first page loaded;
  the second page requested, then a reset and the initial load that the next commit
  starts, while that request is still out.
\<close>

definition first_page_loading :: "nat hook" where
  "first_page_loading = initialLoadEffect defaults (init defaults)"

definition first_page_loaded :: "nat hook" where
  "first_page_loaded = runLoad defaults [Resolved page_a] (initialLoadEffect defaults) (init defaults)"

definition superseded :: "nat hook" where
  "superseded = commit defaults (reset defaults (loadMore defaults first_page_loaded))"

text \<open>The same options with two retries; the second page failing for good.\<close>

definition two_retries :: config where
  "two_retries = defaults\<lparr>retryAttempts := 2\<rparr>"

definition second_page_failed :: "nat hook" where
  "second_page_failed =
     runLoad defaults [Rejected offline, Rejected offline, Rejected offline, Rejected offline]
       (loadMore defaults) first_page_loaded"

text \<open>A hook whose initial load found nothing.\<close>

definition empty_page :: "nat fetch_result" where
  "empty_page = \<lparr> res_data = [], res_hasMore = False, res_total = Some 0 \<rparr>"

definition nothing_found :: "nat hook" where
  "nothing_found =
     runLoad defaults [Resolved empty_page] (initialLoadEffect defaults) (init defaults)"

text \<open>
  That hook after \<open>reset\<close> and the commit that follows: \<open>data.length\<close> and \<open>loading\<close>
  did not change, so the initial-load effect has not run and \<open>initialLoadRef\<close> is
  false.
\<close>

definition reset_while_empty :: "nat hook" where
  "reset_while_empty = commit defaults (reset defaults nothing_found)"

section \<open>Properties\<close>

lemmas handler_defs =
  init_def initialLoadEffect_def fetchWithRetry_def fetchWithRetry_resume_def finallyBlock_def
  abortCurrent_def setTimeout_def clearTimeout_def clearDebounce_def reset_def refresh_def
  loadMore_def retry_def syncRefs_def render_def commit_def settle_def fireTimer_def
  attempt_def retryTimerOf_def runLoad_def debouncedScrollHandler_def scrollEvent_def
  observerCallback_def afterRefresh_def

lemmas sample_defs =
  defaults_def page_a_def page_b_def offline_def first_page_loading_def first_page_loaded_def
  superseded_def two_retries_def second_page_failed_def empty_page_def nothing_found_def
  reset_while_empty_def

subsection \<open>Cancellation\<close>

text \<open>
  A controller is aborted by \<open>reset\<close>, by the unmount cleanup, and by the next call of
  \<open>fetchWithRetry\<close> that gets past its guards.
\<close>

lemma reset_aborts_live:
  "abortControllerRef s = Some c \<Longrightarrow> c \<in> aborted (reset cfg s)"
  by (simp add: reset_def clearDebounce_def clearTimeout_def abortCurrent_def split: option.splits)

lemma unmount_aborts_live:
  "abortControllerRef s = Some c \<Longrightarrow> c \<in> aborted (unmount s)"
  by (simp add: unmount_def clearDebounce_def clearTimeout_def abortCurrent_def split: option.splits)

lemma supersede_aborts_live:
  "abortControllerRef s = Some c \<Longrightarrow>
   nextController (fetchWithRetry cfg p i rc s) \<noteq> nextController s \<Longrightarrow>
   c \<in> aborted (fetchWithRetry cfg p i rc s)"
  by (auto simp: fetchWithRetry_def abortCurrent_def Let_def split: if_splits)

text \<open>
  Claim C2. When the signal of a request has been aborted before its promise settles, the
  continuation of \<open>fetchWithRetry\<close> returns the state it found: no state value, ref, timer
  or callback is touched, whether the promise resolved or rejected.
\<close>

theorem cancelled_result_discarded:
  "req_signal req \<in> aborted s \<Longrightarrow> fetchWithRetry_resume cfg req out s = s"
  by (simp add: fetchWithRetry_resume_def finallyBlock_def split: outcome.splits)

theorem cancelled_result_discarded_witness:
  "1 \<in> aborted superseded \<and> loading superseded \<and>
   fetchWithRetry_resume defaults
     \<lparr> req_signal = 1, req_page = 1, req_isInitial = False, req_retryCount = 0 \<rparr>
     (Resolved page_b) superseded = superseded"
proof -
  have h: "1 \<in> aborted superseded" "loading superseded"
    by (simp_all add: handler_defs sample_defs Let_def)
  show ?thesis
    using h cancelled_result_discarded[of
        "\<lparr> req_signal = 1, req_page = 1, req_isInitial = False, req_retryCount = 0 \<rparr>"
        superseded defaults "Resolved page_b"]
    by simp
qed

subsection \<open>\<open>loadMore\<close>\<close>

text \<open>
  Claim C5. With \<open>hasMore\<close> false, or \<open>loading\<close> true, or a page recorded in
  \<open>currentRequestPageRef\<close>, \<open>loadMore\<close> returns the state unchanged; the trace is part
  of the state, so \<open>fetchData\<close> is not called.
\<close>

theorem loadMore_noop:
  "\<not> hasMore s \<or> loading s \<or> currentRequestPageRef s \<noteq> None \<Longrightarrow> loadMore cfg s = s"
  by (auto simp: loadMore_def)

theorem loadMore_noop_witness:
  "loading first_page_loading \<and> loadMore defaults first_page_loading = first_page_loading"
proof -
  have h: "loading first_page_loading"
    by (simp add: handler_defs sample_defs Let_def)
  show ?thesis
    using h loadMore_noop[of first_page_loading defaults] by simp
qed

subsection \<open>\<open>reset\<close>\<close>

text \<open>
  Claim C6. After \<open>reset\<close> the snapshot is that of a new hook: \<open>data\<close> empty, \<open>loading\<close>
  false, \<open>error\<close> null, \<open>hasMore\<close> true, \<open>isRetrying\<close> false, \<open>currentPage\<close> the initial
  page, \<open>totalCount\<close> null; the retry counter is zero, the in-flight page and both
  initial-load markers are cleared, the controller that was current is aborted and the
  debounce timeout that was recorded is no longer pending.
\<close>

theorem reset_defaults:
  "snapshot (reset cfg s) = snapshot (init cfg) \<and>
   data (reset cfg s) = [] \<and> loading (reset cfg s) = False \<and> error (reset cfg s) = None \<and>
   hasMore (reset cfg s) = True \<and> isRetrying (reset cfg s) = False \<and>
   currentPage (reset cfg s) = initialPage cfg \<and> totalCount (reset cfg s) = None \<and>
   retryCountRef (reset cfg s) = 0 \<and> currentRequestPageRef (reset cfg s) = None \<and>
   isInitialLoadingRef (reset cfg s) = False \<and> initialLoadRef (reset cfg s) = False \<and>
   (\<forall>c. abortControllerRef s = Some c \<longrightarrow> c \<in> aborted (reset cfg s)) \<and>
   (\<forall>t. debounceTimerRef s = Some t \<and> t \<noteq> 0 \<longrightarrow> t \<notin> fst ` set (timers (reset cfg s)))"
  apply (simp add: reset_def snapshot_def init_def)
  apply (auto simp: clearDebounce_def clearTimeout_def abortCurrent_def split: option.splits)
  done

theorem reset_defaults_witness:
  "abortControllerRef (scrollEvent defaults 0 0 0 first_page_loading) = Some 0 \<and>
   debounceTimerRef (scrollEvent defaults 0 0 0 first_page_loading) = Some 1 \<and>
   1 \<in> fst ` set (timers (scrollEvent defaults 0 0 0 first_page_loading)) \<and>
   0 \<in> aborted (reset defaults (scrollEvent defaults 0 0 0 first_page_loading)) \<and>
   1 \<notin> fst ` set (timers (reset defaults (scrollEvent defaults 0 0 0 first_page_loading))) \<and>
   loading (reset defaults (scrollEvent defaults 0 0 0 first_page_loading)) = False"
proof -
  have h: "abortControllerRef (scrollEvent defaults 0 0 0 first_page_loading) = Some 0"
    "debounceTimerRef (scrollEvent defaults 0 0 0 first_page_loading) = Some 1"
    "1 \<in> fst ` set (timers (scrollEvent defaults 0 0 0 first_page_loading))"
    by (simp_all add: handler_defs sample_defs Let_def)
  show ?thesis
    using h reset_defaults[of defaults "scrollEvent defaults 0 0 0 first_page_loading"]
    by simp
qed

subsection \<open>A resolved request\<close>

text \<open>
  Claim C7. When a request whose signal is not aborted resolves, \<open>data\<close> becomes the new
  items for an initial (replace) load and the old \<open>data\<close> followed by the new items
  otherwise, \<open>hasMore\<close> is the result's, \<open>currentPage\<close> is the requested page, \<open>loading\<close>
  and \<open>isRetrying\<close> are false, and \<open>onSuccess\<close>, when supplied, is called once with the
  new items and the page.
\<close>

theorem success_merges:
  "req_signal req \<notin> aborted s \<Longrightarrow>
   data (fetchWithRetry_resume cfg req (Resolved r) s) =
     (if req_isInitial req then res_data r else data s @ res_data r) \<and>
   hasMore (fetchWithRetry_resume cfg req (Resolved r) s) = res_hasMore r \<and>
   currentPage (fetchWithRetry_resume cfg req (Resolved r) s) = req_page req \<and>
   loading (fetchWithRetry_resume cfg req (Resolved r) s) = False \<and>
   isRetrying (fetchWithRetry_resume cfg req (Resolved r) s) = False \<and>
   trace (fetchWithRetry_resume cfg req (Resolved r) s) =
     trace s @ (if has_onSuccess cfg then [OnSuccess (res_data r) (req_page req)] else [])"
  by (simp add: fetchWithRetry_resume_def finallyBlock_def Let_def split: option.splits)

theorem success_merges_witness:
  "0 \<notin> aborted first_page_loading \<and>
   data (fetchWithRetry_resume defaults
     \<lparr> req_signal = 0, req_page = 0, req_isInitial = True, req_retryCount = 0 \<rparr>
     (Resolved page_a) first_page_loading) = [1, 2] \<and>
   trace (fetchWithRetry_resume defaults
     \<lparr> req_signal = 0, req_page = 0, req_isInitial = True, req_retryCount = 0 \<rparr>
     (Resolved page_a) first_page_loading) = [FetchData 0 0, OnSuccess [1, 2] 0]"
proof -
  have h: "0 \<notin> aborted first_page_loading" "trace first_page_loading = [FetchData 0 0]"
    by (simp_all add: handler_defs sample_defs Let_def)
  show ?thesis
    using h success_merges[of
        "\<lparr> req_signal = 0, req_page = 0, req_isInitial = True, req_retryCount = 0 \<rparr>"
        first_page_loading defaults page_a]
    by (simp add: defaults_def page_a_def)
qed

subsection \<open>Well-formed states\<close>

text \<open>Every handler keeps \<open>wf\<close>, and the hook starts in a well-formed state.\<close>

lemma wf_abortCurrent: "wf s \<Longrightarrow> wf (abortCurrent s)"
  by (auto simp: wf_def abortCurrent_def split: option.splits)

lemma wf_setTimeout:
  "wf s \<Longrightarrow> \<forall>c \<in> set_option (retry_signal (nextTimer s, d, a)). c < nextController s \<Longrightarrow>
   wf (setTimeout a d s)"
  by (fastforce simp: wf_def setTimeout_def less_Suc_eq)

lemma wf_clearTimeout: "wf s \<Longrightarrow> wf (clearTimeout t s)"
  by (fastforce simp: wf_def clearTimeout_def)

lemma wf_clearDebounce: "wf s \<Longrightarrow> wf (clearDebounce s)"
  by (simp add: clearDebounce_def wf_clearTimeout split: option.splits)

lemma wf_syncRefs: "wf (syncRefs s) = wf s"
  by (simp add: wf_def syncRefs_def)

lemma wf_fetchWithRetry: "wf s \<Longrightarrow> wf (fetchWithRetry cfg p i rc s)"
  by (fastforce simp: wf_def fetchWithRetry_def abortCurrent_def Let_def less_Suc_eq
        split: option.splits)

lemma wf_reset: "wf s \<Longrightarrow> wf (reset cfg s)"
proof -
  assume "wf s"
  then have "wf (clearDebounce (abortCurrent s))"
    by (simp add: wf_clearDebounce wf_abortCurrent)
  then show ?thesis by (simp add: wf_def reset_def)
qed

lemma wf_refresh: "wf s \<Longrightarrow> wf (refresh cfg s)"
  unfolding refresh_def by (rule wf_setTimeout) (simp_all add: wf_reset)

lemma wf_finallyBlock: "wf (finallyBlock req s) = wf s"
  by (simp add: wf_def finallyBlock_def)

lemma wf_fields:
  "aborted s' = aborted s \<Longrightarrow> nextController s' = nextController s \<Longrightarrow>
   abortControllerRef s' = abortControllerRef s \<Longrightarrow> inflight s' = inflight s \<Longrightarrow>
   timers s' = timers s \<Longrightarrow> nextTimer s' = nextTimer s \<Longrightarrow> wf s' = wf s"
  by (simp add: wf_def)

lemma wf_resume:
  assumes "wf s" "req_signal req < nextController s"
  shows "wf (fetchWithRetry_resume cfg req out s)"
proof (cases out)
  case (Resolved r)
  have "wf (fetchWithRetry_resume cfg req (Resolved r) s) = wf s"
    by (rule wf_fields)
      (simp_all add: fetchWithRetry_resume_def finallyBlock_def Let_def split: option.splits)
  then show ?thesis using assms Resolved by simp
next
  case (Rejected e)
  show ?thesis
  proof (cases "req_signal req \<notin> aborted s \<and> int (req_retryCount req) < retryAttempts cfg")
    case True
    have "wf (s\<lparr>retryCountRef := req_retryCount req + 1\<rparr>)"
      using assms(1) by (simp add: wf_def)
    then have "wf (setTimeout (RetryCallback req) (retryDelay cfg * 2 ^ req_retryCount req)
                (s\<lparr>retryCountRef := req_retryCount req + 1\<rparr>))"
      by (rule wf_setTimeout) (use assms(2) in simp)
    then show ?thesis
      using True by (simp add: Rejected fetchWithRetry_resume_def wf_finallyBlock)
  next
    case False
    have "wf (fetchWithRetry_resume cfg req (Rejected e) s) = wf s"
      by (rule wf_fields)
        (use False in \<open>auto simp: fetchWithRetry_resume_def finallyBlock_def Let_def\<close>)
    then show ?thesis using assms Rejected by simp
  qed
qed

lemma wf_settle: "wf s \<Longrightarrow> wf (settle cfg c out s)"
proof (cases "find (\<lambda>r. req_signal r = c) (inflight s)")
  case None
  then show "wf s \<Longrightarrow> ?thesis" by (simp add: settle_def)
next
  case (Some req)
  assume a: "wf s"
  from Some have "req \<in> set (inflight s)"
    by (auto simp: find_Some_iff)
  then have lt: "req_signal req < nextController s"
    using a by (auto simp: wf_def)
  have "wf (s\<lparr>inflight := filter (\<lambda>r. req_signal r \<noteq> c) (inflight s)\<rparr>)"
    using a by (auto simp: wf_def)
  from wf_resume[OF this, of req cfg out] lt show ?thesis
    by (simp add: settle_def Some)
qed

lemma wf_timerCallback: "wf s \<Longrightarrow> wf (timerCallback cfg a s)"
  by (cases a) (simp_all add: wf_fetchWithRetry)

lemma wf_fireTimer:
  assumes "wf s"
  shows "wf (fireTimer cfg t s)"
proof (cases "find (\<lambda>(i, d, a). i = t) (timers s)")
  case None
  then show ?thesis using assms by (simp add: fireTimer_def)
next
  case (Some x)
  obtain i d a where x: "x = (i, d, a)" by (cases x)
  have "wf (s\<lparr>timers := filter (\<lambda>(i, d, a). i \<noteq> t) (timers s)\<rparr>)"
    using assms by (fastforce simp: wf_def)
  then show ?thesis
    by (simp add: fireTimer_def Some x wf_timerCallback)
qed

lemma wf_debouncedScrollHandler: "wf s \<Longrightarrow> wf (debouncedScrollHandler cfg s)"
proof -
  assume "wf s"
  then have "wf (setTimeout (ScrollCallback (currentPage s)) (debounceMs cfg) (clearDebounce s))"
    by (intro wf_setTimeout wf_clearDebounce) simp_all
  moreover have "wf (debouncedScrollHandler cfg s) =
      wf (setTimeout (ScrollCallback (currentPage s)) (debounceMs cfg) (clearDebounce s))"
    by (rule wf_fields) (simp_all add: debouncedScrollHandler_def Let_def)
  ultimately show ?thesis by simp
qed

lemma wf_initialLoadEffect: "wf s \<Longrightarrow> wf (initialLoadEffect cfg s)"
proof -
  assume a: "wf s"
  have "wf (s\<lparr>initialLoadRef := True\<rparr>) = wf s"
    by (rule wf_fields) simp_all
  then show ?thesis
    using a by (simp add: initialLoadEffect_def wf_fetchWithRetry)
qed

lemma wf_render: "wf s \<Longrightarrow> wf (render cfg s)"
proof -
  assume a: "wf s"
  have "wf ((syncRefs s)\<lparr>effectDeps := d\<rparr>) = wf s" for d
    by (rule wf_fields) (simp_all add: syncRefs_def)
  then show ?thesis
    using a by (simp add: render_def Let_def wf_syncRefs wf_initialLoadEffect)
qed

lemma wf_commit: "wf s \<Longrightarrow> wf (commit cfg s)"
  by (simp add: commit_def wf_render)

lemma wf_step:
  assumes "wf s"
  shows "wf (step cfg ev s)"
proof (cases ev)
  case LoadMore
  then show ?thesis using assms by (simp add: loadMore_def wf_fetchWithRetry)
next
  case Retry
  then show ?thesis using assms by (simp add: retry_def wf_fetchWithRetry)
next
  case Reset
  then show ?thesis using assms by (simp add: wf_reset)
next
  case Refresh
  then show ?thesis using assms by (simp add: wf_refresh)
next
  case (Settle c out)
  then show ?thesis using assms by (simp add: wf_settle)
next
  case (Fire t)
  then show ?thesis using assms by (simp add: wf_fireTimer)
next
  case (Scroll st sh ch)
  have "wf (s\<lparr>scrollTop := st, scrollHeight := sh, clientHeight := ch\<rparr>) = wf s"
    by (rule wf_fields) simp_all
  then show ?thesis
    using assms by (simp add: Scroll scrollEvent_def Let_def wf_debouncedScrollHandler)
next
  case (Intersect b)
  then show ?thesis using assms by (simp add: observerCallback_def wf_fetchWithRetry)
next
  case (Visibility h)
  have "wf (handleVisibilityChange cfg h s) = wf s"
    by (rule wf_fields) (simp_all add: handleVisibilityChange_def)
  then show ?thesis using assms Visibility by simp
next
  case Render
  then show ?thesis using assms by (simp add: wf_render)
next
  case EnabledChanged
  have "wf (enabledEffect cfg s) = wf s"
    by (rule wf_fields) (simp_all add: enabledEffect_def)
  then show ?thesis using assms EnabledChanged by simp
next
  case (DependenciesChanged n)
  then show ?thesis using assms by (simp add: resetDependenciesEffect_def wf_reset)
next
  case InitialLoad
  then show ?thesis using assms by (simp add: wf_initialLoadEffect)
next
  case Unmount
  then show ?thesis using assms by (simp add: unmount_def wf_clearDebounce wf_abortCurrent)
qed

lemma wf_init: "wf (init cfg)"
  by (simp add: wf_def init_def)

subsection \<open>One attempt of a load\<close>

lemma initialLoadRef_resume [simp]:
  "initialLoadRef (fetchWithRetry_resume cfg req out s) = initialLoadRef s"
  by (simp add: fetchWithRetry_resume_def finallyBlock_def setTimeout_def Let_def
      split: outcome.splits option.splits)

lemma initialLoadRef_settle [simp]: "initialLoadRef (settle cfg c out s) = initialLoadRef s"
  by (simp add: settle_def split: option.splits)

lemma initialLoadRef_fetchWithRetry [simp]:
  "initialLoadRef (fetchWithRetry cfg p i rc s) = initialLoadRef s"
  by (simp add: fetchWithRetry_def abortCurrent_def Let_def split: option.splits)

lemma initialLoadEffect_latched: "initialLoadRef s \<Longrightarrow> initialLoadEffect cfg s = s"
  by (simp add: initialLoadEffect_def)

lemma render_latched:
  "initialLoadRef s \<Longrightarrow>
   render cfg s = (syncRefs s)\<lparr>effectDeps := (length (data s), loading s)\<rparr>"
  by (simp add: render_def Let_def initialLoadEffect_latched syncRefs_def)

lemma commit_latched:
  "initialLoadRef s \<Longrightarrow>
   commit cfg s = (syncRefs s)\<lparr>effectDeps := (length (data s), loading s)\<rparr>"
  by (simp add: commit_def render_latched syncRefs_def)


lemma find_snoc:
  "find P (xs @ [x]) = (case find P xs of None \<Rightarrow> if P x then Some x else None | Some y \<Rightarrow> Some y)"
  by (induction xs) auto

lemma find_none: "(\<And>x. x \<in> set xs \<Longrightarrow> \<not> P x) \<Longrightarrow> find P xs = None"
  by (induction xs) auto

lemma filter_all: "(\<And>x. x \<in> set xs \<Longrightarrow> P x) \<Longrightarrow> filter P xs = xs"
  by (induction xs) auto

lemma wf_timer_handles: "wf s \<Longrightarrow> (i, d, a) \<in> set (timers s) \<Longrightarrow> i < nextTimer s"
  by (auto simp: wf_def)

lemma wf_timer_signals:
  "wf s \<Longrightarrow> t \<in> set (timers s) \<Longrightarrow> retry_signal t = Some c \<Longrightarrow> c < nextController s"
  by (fastforce simp: wf_def)

lemma attempt_retry:
  fixes s :: "'a hook" and e :: thrown and cfg c p i rc
  assumes "awaiting s c p i rc" "int rc < retryAttempts cfg"
  defines "req \<equiv> \<lparr> req_signal = c, req_page = p, req_isInitial = i, req_retryCount = rc \<rparr>"
  defines "s1 \<equiv> attempt cfg c (Rejected e) s"
  shows "timers s1 = timers s @ [(nextTimer s, retryDelay cfg * 2 ^ rc, RetryCallback req)]"
    and "trace s1 = trace s @ [SetTimeout (nextTimer s) (retryDelay cfg * 2 ^ rc)]"
    and "loading s1 = False" "loadingRef s1 = False" "currentRequestPageRef s1 = None"
    and "i \<Longrightarrow> \<not> isInitialLoadingRef s1" "enabledRef s1" "aborted s1 = aborted s"
    and "nextController s1 = nextController s" "nextTimer s1 = Suc (nextTimer s)"
    and "abortControllerRef s1 = abortControllerRef s"
    and "inflight s1 = filter (\<lambda>r. req_signal r \<noteq> c) (inflight s)"
    and "data s1 = data s" "error s1 = error s" "hasMore s1 = hasMore s" "currentPage s1 = currentPage s"
    and "totalCount s1 = totalCount s" "isRetrying s1 = isRetrying s" "initialLoadRef s1"
  using assms(1,2) unfolding s1_def req_def awaiting_def attempt_def
  by (simp_all add: commit_latched settle_def syncRefs_def fetchWithRetry_resume_def
      finallyBlock_def setTimeout_def)

lemma fetch_admitted:
  fixes s :: "'a hook" and cfg p i rc
  assumes "wf s" "enabledRef s" "\<not> loadingRef s"
    and "i \<or> currentRequestPageRef s \<noteq> Some p" "i \<longrightarrow> \<not> isInitialLoadingRef s"
    and "initialLoadRef s"
  defines "s1 \<equiv> fetchWithRetry cfg p i rc s"
  shows "awaiting s1 (nextController s) p i rc"
    and "nextController s1 = Suc (nextController s)"
    and "trace s1 = trace s @ [FetchData p (nextController s)]"
    and "timers s1 = timers s" "nextTimer s1 = nextTimer s"
    and "loading s1" "error s1 = None" "isRetrying s1 = (0 < rc \<or> isRetrying s)"
    and "data s1 = data s" "hasMore s1 = hasMore s" "currentPage s1 = currentPage s"
    and "totalCount s1 = totalCount s" "currentRequestPageRef s1 = Some p"
proof -
  have old: "\<And>r. r \<in> set (inflight s) \<Longrightarrow> req_signal r \<noteq> nextController s"
    using assms(1) by (auto simp: wf_def)
  have tms: "\<And>t. t \<in> set (timers s) \<Longrightarrow> retry_signal t \<noteq> Some (nextController s)"
    using assms(1) by (fastforce simp: wf_def)
  have fnd: "find (\<lambda>r. req_signal r = nextController s) (inflight s) = None"
    by (rule find_none) (use old in auto)
  have rt: "find (\<lambda>t. retry_signal t = Some (nextController s)) (timers s) = None"
    by (rule find_none) (use tms in auto)
  have wf1: "wf s1"
    using assms(1-5) unfolding s1_def
    by (fastforce simp: wf_def fetchWithRetry_def abortCurrent_def Let_def less_Suc_eq
        split: option.splits)
  have nab: "nextController s \<notin> aborted s1"
    using assms(1-5) unfolding s1_def
    by (auto simp: wf_def fetchWithRetry_def abortCurrent_def Let_def split: option.splits)
  show "awaiting s1 (nextController s) p i rc"
    unfolding awaiting_def using wf1 nab assms(2-6) fnd rt unfolding s1_def
    by (auto simp: fetchWithRetry_def abortCurrent_def Let_def find_snoc retryTimerOf_def
        split: option.splits)
  show "nextController s1 = Suc (nextController s)"
    and "trace s1 = trace s @ [FetchData p (nextController s)]"
    and "timers s1 = timers s" "nextTimer s1 = nextTimer s"
    and "loading s1" "error s1 = None" "isRetrying s1 = (0 < rc \<or> isRetrying s)"
    and "data s1 = data s" "hasMore s1 = hasMore s" "currentPage s1 = currentPage s"
    and "totalCount s1 = totalCount s" "currentRequestPageRef s1 = Some p"
    using assms(2-5) unfolding s1_def
    by (auto simp: fetchWithRetry_def abortCurrent_def Let_def split: option.splits)
qed

lemma fire_retry:
  fixes s :: "'a hook" and e :: thrown and cfg c p i rc
  assumes aw: "awaiting s c p i rc" and lt: "int rc < retryAttempts cfg"
  defines "s1 \<equiv> attempt cfg c (Rejected e) s"
  shows "retryTimerOf c s1 = Some (nextTimer s)"
    and "fireTimer cfg (nextTimer s) s1 = fetchWithRetry cfg p i (Suc rc) (s1\<lparr>timers := timers s\<rparr>)"
    and "wf (s1\<lparr>timers := timers s\<rparr>)"
proof -
  note f = attempt_retry[OF aw lt, of e, folded s1_def]
  have wfs: "wf s" and nab: "c \<notin> aborted s" and rt: "retryTimerOf c s = None"
    using aw by (auto simp: awaiting_def)
  have hd: "\<And>x. x \<in> set (timers s) \<Longrightarrow> \<not> (case x of (j, d, a) \<Rightarrow> j = nextTimer s)"
    using wfs by (fastforce simp: wf_def)
  have fnd: "find (\<lambda>(j, d, a). j = nextTimer s) (timers s) = None"
    by (rule find_none) (use hd in auto)
  have flt: "filter (\<lambda>(j, d, a). j \<noteq> nextTimer s) (timers s) = timers s"
    by (rule filter_all) (use hd in auto)
  show "retryTimerOf c s1 = Some (nextTimer s)"
    using rt by (simp add: retryTimerOf_def f(1) find_snoc split: option.splits)
  show "fireTimer cfg (nextTimer s) s1 = fetchWithRetry cfg p i (Suc rc) (s1\<lparr>timers := timers s\<rparr>)"
    using nab by (simp add: fireTimer_def f find_snoc fnd flt)
  show "wf (s1\<lparr>timers := timers s\<rparr>)"
    using wfs by (fastforce simp: wf_def f less_Suc_eq)
qed

lemma chain_retry:
  fixes s :: "'a hook" and e :: thrown and cfg c p i rc
  assumes aw: "awaiting s c p i rc" and lt: "int rc < retryAttempts cfg"
  shows "\<exists>s2. runChain cfg (Rejected e # outs) c s = runChain cfg outs (nextController s) s2 \<and>
           awaiting s2 (nextController s) p i (Suc rc) \<and>
           trace s2 = trace s @ [SetTimeout (nextTimer s) (retryDelay cfg * 2 ^ rc),
                                 FetchData p (nextController s)] \<and>
           nextController s2 = Suc (nextController s) \<and> nextTimer s2 = Suc (nextTimer s) \<and>
           data s2 = data s \<and> hasMore s2 = hasMore s \<and> currentPage s2 = currentPage s \<and>
           totalCount s2 = totalCount s \<and> loading s2 \<and> error s2 = None \<and> isRetrying s2"
proof -
  define s1 where "s1 = attempt cfg c (Rejected e) s"
  define s1' where "s1' = s1\<lparr>timers := timers s\<rparr>"
  define s2 where "s2 = fetchWithRetry cfg p i (Suc rc) s1'"
  note f = attempt_retry[OF aw lt, of e, folded s1_def]
  note g = fire_retry[OF aw lt, of e, folded s1_def, folded s1'_def]
  have pre: "wf s1'" "enabledRef s1'" "\<not> loadingRef s1'"
    "i \<or> currentRequestPageRef s1' \<noteq> Some p" "i \<longrightarrow> \<not> isInitialLoadingRef s1'"
    "initialLoadRef s1'"
    using g(3) f by (auto simp: s1'_def)
  note h = fetch_admitted[OF pre, of cfg "Suc rc", folded s2_def]
  have nc: "nextController s1' = nextController s" "nextTimer s1' = Suc (nextTimer s)"
    "trace s1' = trace s1" "data s1' = data s" "hasMore s1' = hasMore s"
    "currentPage s1' = currentPage s" "totalCount s1' = totalCount s" "nextController s1 = nextController s"
    by (simp_all add: s1'_def f)
  have "runChain cfg (Rejected e # outs) c s = runChain cfg outs (nextController s) s2"
    using g(1,2) h(2) nc by (simp add: s1_def[symmetric] s2_def[symmetric] Let_def)
  moreover have "awaiting s2 (nextController s) p i (Suc rc)" using h(1) nc by simp
  moreover have "trace s2 = trace s @ [SetTimeout (nextTimer s) (retryDelay cfg * 2 ^ rc),
                                 FetchData p (nextController s)]"
    using h(3) nc f(2) by simp
  ultimately show ?thesis using h nc by auto
qed

lemma attempt_final:
  fixes s :: "'a hook" and cfg c p i rc
  assumes "awaiting s c p i rc"
    and "case out of Rejected e \<Rightarrow> \<not> int rc < retryAttempts cfg | Resolved r \<Rightarrow> True"
  defines "s1 \<equiv> attempt cfg c out s"
  shows "retryTimerOf c s1 = None"
    and "loading s1 = False" "isRetrying s1 = False" "currentRequestPageRef s1 = None"
    and "data s1 = (case out of Resolved r \<Rightarrow> if i then res_data r else data s @ res_data r
                    | Rejected e \<Rightarrow> data s)"
    and "hasMore s1 = (case out of Resolved r \<Rightarrow> res_hasMore r | Rejected e \<Rightarrow> hasMore s)"
    and "currentPage s1 = (case out of Resolved r \<Rightarrow> p | Rejected e \<Rightarrow> currentPage s)"
    and "totalCount s1 = (case out of
           Resolved r \<Rightarrow> (case res_total r of None \<Rightarrow> totalCount s | Some n \<Rightarrow> Some n)
         | Rejected e \<Rightarrow> totalCount s)"
    and "error s1 = (case out of Resolved r \<Rightarrow> error s | Rejected e \<Rightarrow> Some (toError e))"
    and "trace s1 = trace s @
           (case out of
              Resolved r \<Rightarrow> if has_onSuccess cfg then [OnSuccess (res_data r) p] else []
            | Rejected e \<Rightarrow> if has_onError cfg then [OnError (toError e)] else [])"
proof -
  have tm: "timers s1 = timers s"
    using assms(1,2) unfolding s1_def awaiting_def attempt_def
    by (simp add: commit_latched settle_def syncRefs_def fetchWithRetry_resume_def
        finallyBlock_def Let_def split: outcome.splits option.splits)
  show "retryTimerOf c s1 = None"
    using assms(1) by (simp add: retryTimerOf_def tm awaiting_def)
  show "loading s1 = False" "isRetrying s1 = False" "currentRequestPageRef s1 = None"
    and "data s1 = (case out of Resolved r \<Rightarrow> if i then res_data r else data s @ res_data r
                    | Rejected e \<Rightarrow> data s)"
    and "hasMore s1 = (case out of Resolved r \<Rightarrow> res_hasMore r | Rejected e \<Rightarrow> hasMore s)"
    and "currentPage s1 = (case out of Resolved r \<Rightarrow> p | Rejected e \<Rightarrow> currentPage s)"
    and "totalCount s1 = (case out of
           Resolved r \<Rightarrow> (case res_total r of None \<Rightarrow> totalCount s | Some n \<Rightarrow> Some n)
         | Rejected e \<Rightarrow> totalCount s)"
    and "error s1 = (case out of Resolved r \<Rightarrow> error s | Rejected e \<Rightarrow> Some (toError e))"
    and "trace s1 = trace s @
           (case out of
              Resolved r \<Rightarrow> if has_onSuccess cfg then [OnSuccess (res_data r) p] else []
            | Rejected e \<Rightarrow> if has_onError cfg then [OnError (toError e)] else [])"
    using assms(1,2) unfolding s1_def awaiting_def attempt_def
    by (simp_all add: commit_latched settle_def syncRefs_def fetchWithRetry_resume_def
        finallyBlock_def Let_def split: outcome.splits option.splits)
qed

lemma chain_final:
  fixes s :: "'a hook"
  assumes "awaiting s c p i rc"
    and "case out of Rejected e \<Rightarrow> \<not> int rc < retryAttempts cfg | Resolved r \<Rightarrow> True"
  shows "runChain cfg (out # outs) c s = attempt cfg c out s"
  using attempt_final(1)[OF assms] by simp








subsection \<open>Two loads that start alike end alike\<close>

lemma chain_sim:
  fixes s s' :: "'a hook"
  assumes "awaiting s c p i rc" "awaiting s' c' p i rc" "snapshot s = snapshot s'"
  shows "snapshot (runChain cfg outs c s) = snapshot (runChain cfg outs c' s')"
  using assms
proof (induction outs arbitrary: s s' c c' rc)
  case Nil
  then show ?case by simp
next
  case (Cons out outs)
  show ?case
  proof (cases "case out of Rejected e \<Rightarrow> \<not> int rc < retryAttempts cfg | Resolved r \<Rightarrow> True")
    case True
    note f = attempt_final[OF Cons.prems(1) True] and f' = attempt_final[OF Cons.prems(2) True]
    have eq: "data s' = data s" "error s' = error s" "hasMore s' = hasMore s"
      "currentPage s' = currentPage s" "totalCount s' = totalCount s"
      using Cons.prems(3) by (simp_all add: snapshot_def)
    show ?thesis
      unfolding chain_final[OF Cons.prems(1) True] chain_final[OF Cons.prems(2) True]
      by (simp add: snapshot_def f(2-9) f'(2-9) eq split: outcome.splits option.splits)
  next
    case False
    then obtain e where out: "out = Rejected e" and lt: "int rc < retryAttempts cfg"
      by (cases out) auto
    obtain s2 where s2:
      "runChain cfg (Rejected e # outs) c s = runChain cfg outs (nextController s) s2"
      "awaiting s2 (nextController s) p i (Suc rc)"
      "data s2 = data s" "hasMore s2 = hasMore s" "currentPage s2 = currentPage s"
      "totalCount s2 = totalCount s" "loading s2" "error s2 = None" "isRetrying s2"
      using chain_retry[OF Cons.prems(1) lt, of e outs] by auto
    obtain s2' where s2':
      "runChain cfg (Rejected e # outs) c' s' = runChain cfg outs (nextController s') s2'"
      "awaiting s2' (nextController s') p i (Suc rc)"
      "data s2' = data s'" "hasMore s2' = hasMore s'" "currentPage s2' = currentPage s'"
      "totalCount s2' = totalCount s'" "loading s2'" "error s2' = None" "isRetrying s2'"
      using chain_retry[OF Cons.prems(2) lt, of e outs] by auto
    have "snapshot s2 = snapshot s2'"
      using s2(3-9) s2'(3-9) Cons.prems(3) by (simp add: snapshot_def)
    from Cons.IH[OF s2(2) s2'(2) this] show ?thesis
      unfolding out s2(1) s2'(1) .
  qed
qed

subsection \<open>\<open>totalCount\<close>\<close>

lemma totalCount_prims [simp]:
  "totalCount (abortCurrent s) = totalCount s"
  "totalCount (setTimeout a d s) = totalCount s"
  "totalCount (clearTimeout t s) = totalCount s"
  "totalCount (clearDebounce s) = totalCount s"
  "totalCount (finallyBlock req s) = totalCount s"
  "totalCount (syncRefs s) = totalCount s"
  by (simp_all add: abortCurrent_def setTimeout_def clearTimeout_def clearDebounce_def
      finallyBlock_def syncRefs_def split: option.splits)

lemma totalCount_fetchWithRetry [simp]:
  "totalCount (fetchWithRetry cfg p i rc s) = totalCount s"
  by (simp add: fetchWithRetry_def Let_def)

lemma totalCount_initialLoadEffect [simp]:
  "totalCount (initialLoadEffect cfg s) = totalCount s"
  by (simp add: initialLoadEffect_def)

lemma totalCount_render [simp]: "totalCount (render cfg s) = totalCount s"
  by (simp add: render_def Let_def)

lemma totalCount_timerCallback [simp]:
  "totalCount (timerCallback cfg a s) = totalCount s"
  by (cases a) simp_all

lemma totalCount_resume:
  "totalCount (fetchWithRetry_resume cfg req out s) =
     (case out of
        Resolved r \<Rightarrow>
          (case res_total r of
             None \<Rightarrow> totalCount s
           | Some n \<Rightarrow> if req_signal req \<in> aborted s then totalCount s else Some n)
      | Rejected e \<Rightarrow> totalCount s)"
  by (simp add: fetchWithRetry_resume_def Let_def split: outcome.splits option.splits)

lemma totalCount_step:
  "\<not> resets ev \<Longrightarrow> totalCount s \<noteq> None \<Longrightarrow> totalCount (step cfg ev s) \<noteq> None"
  by (cases ev)
    (auto simp: loadMore_def retry_def settle_def fireTimer_def scrollEvent_def
      debouncedScrollHandler_def observerCallback_def handleVisibilityChange_def
      enabledEffect_def resetDependenciesEffect_def unmount_def
      totalCount_resume Let_def split: option.splits outcome.splits)

lemma totalCount_reset [simp]: "totalCount (reset cfg s) = None"
  by (simp add: reset_def)

lemma totalCount_resets: "resets ev \<Longrightarrow> totalCount (step cfg ev s) = None"
  by (cases ev) (simp_all add: refresh_def resetDependenciesEffect_def)

text \<open>
  Claim C10. Once \<open>totalCount\<close> holds a number, a resolved request whose result has no
  \<open>total\<close> leaves it at that number, and the events after which it is null are exactly
  those that run \<open>reset\<close>: \<open>reset\<close>, \<open>refresh\<close>, and a change of a non-empty
  \<open>resetDependencies\<close>.
\<close>

theorem totalCount_kept:
  "totalCount s = Some n \<Longrightarrow>
   (res_total r = None \<longrightarrow> totalCount (fetchWithRetry_resume cfg req (Resolved r) s) = Some n) \<and>
   (\<forall>ev. totalCount (step cfg ev s) = None \<longleftrightarrow> resets ev)"
proof (intro conjI impI allI iffI)
  assume "totalCount s = Some n" "res_total r = None"
  then show "totalCount (fetchWithRetry_resume cfg req (Resolved r) s) = Some n"
    by (simp add: totalCount_resume)
next
  fix ev :: "'a event"
  assume "totalCount s = Some n" "totalCount (step cfg ev s) = None"
  then show "resets ev"
    using totalCount_step[of ev s cfg] by auto
next
  fix ev :: "'a event"
  assume "resets ev"
  then show "totalCount (step cfg ev s) = None"
    by (rule totalCount_resets)
qed

theorem totalCount_kept_witness:
  "totalCount first_page_loaded = Some 10 \<and> res_total page_b = None \<and>
   totalCount (fetchWithRetry_resume defaults
     \<lparr> req_signal = 1, req_page = 1, req_isInitial = False, req_retryCount = 0 \<rparr>
     (Resolved page_b) first_page_loaded) = Some 10 \<and>
   totalCount (step defaults LoadMore first_page_loaded) \<noteq> None \<and>
   totalCount (step defaults Reset first_page_loaded) = None"
proof -
  have h: "totalCount first_page_loaded = Some 10"
    by (simp add: handler_defs sample_defs Let_def)
  have r: "res_total page_b = None" "\<not> resets (LoadMore :: nat event)" "resets (Reset :: nat event)"
    by (simp_all add: page_b_def)
  show ?thesis
    using h r totalCount_kept[OF h, of page_b defaults
        "\<lparr> req_signal = 1, req_page = 1, req_isInitial = False, req_retryCount = 0 \<rparr>"]
    by blast
qed


subsection \<open>\<open>refresh\<close>\<close>

lemma find_filter_none: "find P xs = None \<Longrightarrow> find P (filter Q xs) = None"
  by (induction xs) (auto split: if_splits)

lemma awaiting_fields:
  assumes "aborted s' = aborted s" "nextController s' = nextController s"
    "abortControllerRef s' = abortControllerRef s" "inflight s' = inflight s"
    "timers s' = timers s" "nextTimer s' = nextTimer s"
    "enabledRef s' = enabledRef s" "initialLoadRef s' = initialLoadRef s"
  shows "awaiting s' c p i rc = awaiting s c p i rc"
  using wf_fields[OF assms(1-6)] assms by (simp add: awaiting_def retryTimerOf_def)

lemma awaiting_filter_timers:
  assumes "awaiting s c p i rc"
  shows "awaiting (s\<lparr>timers := filter P (timers s)\<rparr>) c p i rc"
proof -
  have "wf (s\<lparr>timers := filter P (timers s)\<rparr>)"
    using assms by (fastforce simp: awaiting_def wf_def)
  moreover have "retryTimerOf c (s\<lparr>timers := filter P (timers s)\<rparr>) = None"
    using assms by (simp add: awaiting_def retryTimerOf_def find_filter_none)
  ultimately show ?thesis
    using assms by (simp add: awaiting_def)
qed

lemma fetchWithRetry_disabled: "\<not> enabledRef s \<Longrightarrow> fetchWithRetry cfg p i rc s = s"
  by (simp add: fetchWithRetry_def)

lemma fetchWithRetry_busy: "loadingRef s \<Longrightarrow> fetchWithRetry cfg p i rc s = s"
  by (simp add: fetchWithRetry_def)

lemma mount_awaiting:
  assumes "enabled cfg"
  shows "awaiting (initialLoadEffect cfg (init cfg) :: 'a hook) 0 (initialPage cfg) True 0"
    and "nextController (initialLoadEffect cfg (init cfg) :: 'a hook) = Suc 0"
    and "snapshot (initialLoadEffect cfg (init cfg) :: 'a hook) = pending_snapshot cfg"
proof -
  define x :: "'a hook" where "x = (init cfg)\<lparr>initialLoadRef := True\<rparr>"
  have eff: "initialLoadEffect cfg (init cfg) = fetchWithRetry cfg (initialPage cfg) True 0 x"
    using assms by (simp add: initialLoadEffect_def init_def x_def)
  have pre: "wf x" "enabledRef x" "\<not> loadingRef x"
    "True \<or> currentRequestPageRef x \<noteq> Some (initialPage cfg)" "True \<longrightarrow> \<not> isInitialLoadingRef x"
    "initialLoadRef x"
    using assms by (simp_all add: x_def init_def wf_def)
  note f = fetch_admitted[OF pre, of cfg 0]
  have x0: "nextController x = 0" "data x = []" "hasMore x" "\<not> isRetrying x"
    "currentPage x = initialPage cfg" "totalCount x = None"
    by (simp_all add: x_def init_def)
  show "awaiting (initialLoadEffect cfg (init cfg) :: 'a hook) 0 (initialPage cfg) True 0"
    using f(1) by (simp add: eff x0)
  show "nextController (initialLoadEffect cfg (init cfg) :: 'a hook) = Suc 0"
    using f(2) by (simp add: eff x0)
  show "snapshot (initialLoadEffect cfg (init cfg) :: 'a hook) = pending_snapshot cfg"
    using f(6-12) by (simp add: eff x0 snapshot_def pending_snapshot_def)
qed

lemma refresh_fields:
  fixes s :: "'a hook" and cfg
  assumes "wf s"
  defines "u \<equiv> refresh cfg s"
  shows "wf u" "enabledRef u = enabledRef s" "data u = []" "\<not> loading u"
    and "\<not> initialLoadRef u" "\<not> isInitialLoadingRef u" "currentRequestPageRef u = None"
    and "nextController u = nextController s" "snapshot u = snapshot (init cfg)"
    and "nextTimer (reset cfg s) = nextTimer s"
    and "find (\<lambda>(i, d, a). i = nextTimer s) (timers u) = Some (nextTimer s, 0, RefreshCallback)"
    and "inflight u = inflight s" "effectDeps u = effectDeps s"
    and "timers u = timers (reset cfg s) @ [(nextTimer s, 0, RefreshCallback)]"
proof -
  define v where "v = reset cfg s"
  have wfv: "wf v" using assms(1) by (simp add: v_def wf_reset)
  have nt: "nextTimer v = nextTimer s"
    by (simp add: v_def reset_def clearDebounce_def clearTimeout_def abortCurrent_def
        split: option.splits)
  have nc: "nextController v = nextController s" "enabledRef v = enabledRef s"
    "inflight v = inflight s" "effectDeps v = effectDeps s"
    by (simp_all add: v_def reset_def clearDebounce_def clearTimeout_def abortCurrent_def
        split: option.splits)
  have vf: "data v = []" "\<not> loading v" "\<not> initialLoadRef v" "\<not> isInitialLoadingRef v"
    "currentRequestPageRef v = None" "snapshot v = snapshot (init cfg)"
    by (simp_all add: v_def reset_def snapshot_def init_def)
  have u: "u = setTimeout RefreshCallback 0 v"
    by (simp add: u_def refresh_def v_def)
  have "\<And>x. x \<in> set (timers v) \<Longrightarrow> \<not> (case x of (i, d, a) \<Rightarrow> i = nextTimer v)"
    using wfv by (fastforce simp: wf_def)
  then have fnd: "find (\<lambda>(i, d, a). i = nextTimer v) (timers v) = None"
    by (intro find_none) auto
  show "wf u"
    unfolding u by (rule wf_setTimeout) (simp_all add: wfv)
  show "enabledRef u = enabledRef s" "data u = []" "\<not> loading u"
    "\<not> initialLoadRef u" "\<not> isInitialLoadingRef u" "currentRequestPageRef u = None"
    "nextController u = nextController s" "inflight u = inflight s" "effectDeps u = effectDeps s"
    using vf nc by (simp_all add: u setTimeout_def)
  show "snapshot u = snapshot (init cfg)"
    using vf(6) by (simp add: u setTimeout_def snapshot_def)
  show "nextTimer (reset cfg s) = nextTimer s"
    using nt by (simp add: v_def)
  show "find (\<lambda>(i, d, a). i = nextTimer s) (timers u) = Some (nextTimer s, 0, RefreshCallback)"
    using fnd by (simp add: u setTimeout_def find_snoc nt)
  show "timers u = timers (reset cfg s) @ [(nextTimer s, 0, RefreshCallback)]"
    by (simp add: u setTimeout_def nt) (simp add: v_def)
qed

lemma afterRefresh_awaiting:
  fixes s :: "'a hook" and cfg
  assumes wfs: "wf s" and en: "enabledRef s" "enabled cfg" and deps: "effectDeps s \<noteq> (0, False)"
  shows "awaiting (afterRefresh cfg s) (nextController s) (initialPage cfg) True 0"
    and "nextController (afterRefresh cfg s) = Suc (nextController s)"
    and "snapshot (afterRefresh cfg s) = pending_snapshot cfg"
proof -
  define u where "u = refresh cfg s"
  note r = refresh_fields[OF wfs, of cfg, folded u_def]
  have usnap: "hasMore u" "\<not> isRetrying u" "currentPage u = initialPage cfg" "totalCount u = None"
    using r(9) by (simp_all add: snapshot_def init_def)
  let ?keep = "\<lambda>(i, d, a). i \<noteq> nextTimer s"
  define x where "x = (syncRefs u)\<lparr>effectDeps := (0, False), initialLoadRef := True\<rparr>"
  define y where "y = fetchWithRetry cfg (initialPage cfg) True 0 x"
  have r1: "render cfg u = y"
    using r deps en by (simp add: render_def Let_def syncRefs_def initialLoadEffect_def x_def y_def)
  have "wf x = wf u" by (rule wf_fields) (simp_all add: x_def syncRefs_def)
  then have pre: "wf x" "enabledRef x" "\<not> loadingRef x"
    "True \<or> currentRequestPageRef x \<noteq> Some (initialPage cfg)" "True \<longrightarrow> \<not> isInitialLoadingRef x"
    "initialLoadRef x"
    using r en by (simp_all add: x_def syncRefs_def)
  note f = fetch_admitted[OF pre, of cfg 0, folded y_def]
  have x0: "nextController x = nextController s" "data x = []" "hasMore x" "\<not> isRetrying x"
    "currentPage x = initialPage cfg" "totalCount x = None" "timers x = timers u"
    using r usnap by (simp_all add: x_def syncRefs_def)
  have ly: "initialLoadRef y" using f(1) by (simp add: awaiting_def)
  define y' where "y' = (syncRefs y)\<lparr>effectDeps := (length (data y), loading y)\<rparr>"
  have c: "commit cfg u = y'"
    by (simp add: commit_def r1 render_latched[OF ly] y'_def)
  have ay': "awaiting y' (nextController s) (initialPage cfg) True 0"
    using f(1) awaiting_fields[of y' y "nextController s" "initialPage cfg" True 0]
    by (simp add: y'_def syncRefs_def x0)
  have tm: "timers y' = timers u"
    using f(4) by (simp add: y'_def syncRefs_def x0)
  define z where "z = y'\<lparr>timers := filter ?keep (timers u)\<rparr>"
  have busy: "loadingRef z"
    using f(6) by (simp add: z_def y'_def syncRefs_def)
  have ar: "afterRefresh cfg s = z"
    using r(11) fetchWithRetry_busy[OF busy]
    by (simp add: afterRefresh_def u_def[symmetric] c r(10) fireTimer_def tm z_def[symmetric])
  have az: "awaiting z (nextController s) (initialPage cfg) True 0"
    unfolding z_def tm[symmetric] using ay' by (rule awaiting_filter_timers)
  have zf: "nextController z = nextController y" "data z = data y" "loading z = loading y"
    "error z = error y" "hasMore z = hasMore y" "isRetrying z = isRetrying y"
    "currentPage z = currentPage y" "totalCount z = totalCount y"
    by (simp_all add: z_def y'_def syncRefs_def)
  show "awaiting (afterRefresh cfg s) (nextController s) (initialPage cfg) True 0"
    using az by (simp add: ar)
  show "nextController (afterRefresh cfg s) = Suc (nextController s)"
    using f(2) by (simp add: ar zf x0)
  show "snapshot (afterRefresh cfg s) = pending_snapshot cfg"
    using f(6-12) by (simp add: ar zf x0 snapshot_def pending_snapshot_def)
qed

lemma afterRefresh_disabled:
  fixes s :: "'a hook" and cfg
  assumes wfs: "wf s" and en: "\<not> enabledRef s" "\<not> enabled cfg"
  shows "nextController (afterRefresh cfg s) = nextController s"
    and "snapshot (afterRefresh cfg s) = snapshot (init cfg)"
proof -
  define u where "u = refresh cfg s"
  note r = refresh_fields[OF wfs, of cfg, folded u_def]
  have eff: "initialLoadEffect cfg w = w" for w :: "'a hook"
    using en by (simp add: initialLoadEffect_def)
  have r1: "render cfg w = (syncRefs w)\<lparr>effectDeps := (length (data w), loading w)\<rparr>"
    for w :: "'a hook"
    by (simp add: render_def Let_def eff syncRefs_def)
  define y where "y = commit cfg u"
  have yf: "timers y = timers u" "enabledRef y = enabledRef u" "nextController y = nextController u"
    "snapshot y = snapshot u"
    by (simp_all add: y_def commit_def r1 syncRefs_def snapshot_def)
  let ?keep = "\<lambda>(i, d, a). i \<noteq> nextTimer s"
  define x where "x = y\<lparr>timers := filter ?keep (timers u)\<rparr>"
  have "\<not> enabledRef x" using r en yf by (simp add: x_def)
  then have "afterRefresh cfg s = x"
    using r(11) fetchWithRetry_disabled[of x cfg "initialPage cfg" True 0]
    by (simp add: afterRefresh_def u_def[symmetric] y_def[symmetric] r(10) fireTimer_def
        yf(1) x_def[symmetric])
  then show "nextController (afterRefresh cfg s) = nextController s"
    and "snapshot (afterRefresh cfg s) = snapshot (init cfg)"
    using r(8,9) yf by (simp_all add: x_def snapshot_def)
qed

text \<open>
  When \<open>reset\<close> changes \<open>data.length\<close> or \<open>loading\<close>, the initial-load effect runs at
  the commit after \<open>refresh\<close> and makes the one load; the timeout's call then returns at
  a guard, and the hook ends as a new one does on the same outcomes. \<open>refresh\<close> itself
  calls nothing: it leaves the timeout.
\<close>

lemma refresh_like_fresh_mount:
  fixes s :: "'a hook"
  assumes "wf s" "enabledRef s = enabled cfg" "effectDeps s \<noteq> (0, False)"
  shows "snapshot (runLoad cfg outs (afterRefresh cfg) s) =
           snapshot (runLoad cfg outs (initialLoadEffect cfg) (init cfg :: 'a hook))"
proof (cases "enabled cfg")
  case True
  have en: "enabledRef s" using assms(2) True by simp
  note a = afterRefresh_awaiting[OF assms(1) en True assms(3)]
  note m = mount_awaiting[OF True, where 'a = 'a]
  have l: "runLoad cfg outs (afterRefresh cfg) s =
      runChain cfg outs (nextController s) (afterRefresh cfg s)"
    using a(2) by (simp add: runLoad_def Let_def)
  have r: "runLoad cfg outs (initialLoadEffect cfg) (init cfg :: 'a hook) =
      runChain cfg outs 0 (initialLoadEffect cfg (init cfg))"
    using m(2) by (simp add: runLoad_def Let_def init_def)
  show ?thesis
    unfolding l r
    by (rule chain_sim[OF a(1) m(1)]) (simp add: a(3) m(3))
next
  case False
  have en: "\<not> enabledRef s" using assms(2) False by simp
  note d = afterRefresh_disabled[OF assms(1) en False]
  have "initialLoadEffect cfg (init cfg :: 'a hook) = init cfg"
    using False by (simp add: initialLoadEffect_def)
  then show ?thesis
    using d by (simp add: runLoad_def Let_def)
qed

lemma refresh_defers_load:
  assumes "wf s"
  shows "snapshot (refresh cfg s) = snapshot (init cfg) \<and>
         inflight (refresh cfg s) = inflight s \<and>
         nextController (refresh cfg s) = nextController s \<and>
         timers (refresh cfg s) = timers (reset cfg s) @ [(nextTimer s, 0, RefreshCallback)]"
  using refresh_fields[OF assms, of cfg] by simp

subsection \<open>A failed attempt that will be retried\<close>

text \<open>
  Claim C1, as amended. When a request whose signal is not aborted rejects with
  \<open>retryCount < retryAttempts\<close>, a timeout of \<open>retryDelay * 2 ^ retryCount\<close> is set for
  the retry and \<open>onError\<close> is not called, and the \<open>finally\<close> block runs at once:
  \<open>loading\<close> is false and \<open>currentRequestPageRef\<close> is null for the time of the
  backoff, \<open>error\<close> is as it was. Both are set again by the next attempt: in an enabled
  hook, once the refs are copied, the timeout's callback is the call
  \<open>fetchWithRetry(page, isInitial, retryCount + 1)\<close>, and it gets past the guards.
\<close>

theorem backoff_between_attempts:
  fixes s :: "'a hook"
  assumes "req_signal req \<notin> aborted s" "int (req_retryCount req) < retryAttempts cfg"
  shows "timers (fetchWithRetry_resume cfg req (Rejected e) s) =
           timers s @ [(nextTimer s, retryDelay cfg * 2 ^ req_retryCount req, RetryCallback req)] \<and>
         trace (fetchWithRetry_resume cfg req (Rejected e) s) =
           trace s @ [SetTimeout (nextTimer s) (retryDelay cfg * 2 ^ req_retryCount req)] \<and>
         loading (fetchWithRetry_resume cfg req (Rejected e) s) = False \<and>
         currentRequestPageRef (fetchWithRetry_resume cfg req (Rejected e) s) = None \<and>
         error (fetchWithRetry_resume cfg req (Rejected e) s) = error s \<and>
         (enabledRef s \<longrightarrow>
           timerCallback cfg (RetryCallback req)
             (syncRefs (fetchWithRetry_resume cfg req (Rejected e) s)) =
           fetchWithRetry cfg (req_page req) (req_isInitial req) (req_retryCount req + 1)
             (syncRefs (fetchWithRetry_resume cfg req (Rejected e) s)) \<and>
           loading (timerCallback cfg (RetryCallback req)
             (syncRefs (fetchWithRetry_resume cfg req (Rejected e) s))) \<and>
           currentRequestPageRef (timerCallback cfg (RetryCallback req)
             (syncRefs (fetchWithRetry_resume cfg req (Rejected e) s))) = Some (req_page req))"
  using assms
  by (simp add: fetchWithRetry_resume_def finallyBlock_def setTimeout_def syncRefs_def
      fetchWithRetry_def abortCurrent_def Let_def split: option.splits)

theorem backoff_between_attempts_witness:
  "0 \<notin> aborted first_page_loading \<and> int 0 < retryAttempts defaults \<and> enabledRef first_page_loading \<and>
   timers (fetchWithRetry_resume defaults
       \<lparr> req_signal = 0, req_page = 0, req_isInitial = True, req_retryCount = 0 \<rparr>
       (Rejected offline) first_page_loading) =
     [(1, 1000, RetryCallback \<lparr> req_signal = 0, req_page = 0, req_isInitial = True, req_retryCount = 0 \<rparr>)] \<and>
   loading (fetchWithRetry_resume defaults
       \<lparr> req_signal = 0, req_page = 0, req_isInitial = True, req_retryCount = 0 \<rparr>
       (Rejected offline) first_page_loading) = False"
proof -
  have h: "0 \<notin> aborted first_page_loading" "int 0 < retryAttempts defaults"
    "enabledRef first_page_loading" "timers first_page_loading = []" "nextTimer first_page_loading = 1"
    "retryDelay defaults = 1000"
    by (simp_all add: handler_defs sample_defs Let_def)
  show ?thesis
    using h backoff_between_attempts[of
        "\<lparr> req_signal = 0, req_page = 0, req_isInitial = True, req_retryCount = 0 \<rparr>"
        first_page_loading defaults offline]
    by simp
qed

text \<open>
  Claim C1 as first stated, with \<open>loading\<close> true and the in-flight page kept for the
  time of the backoff, fails: the first attempt of the initial load is rejected under the
  default options, the retry timeout is pending, and \<open>loading\<close> is false and the
  in-flight page is null.
\<close>

theorem backoff_clears_loading_counterexample:
  "timers (settle defaults 0 (Rejected offline) first_page_loading) =
     [(1, 1000, RetryCallback \<lparr> req_signal = 0, req_page = 0, req_isInitial = True, req_retryCount = 0 \<rparr>)] \<and>
   loading (settle defaults 0 (Rejected offline) first_page_loading) = False \<and>
   currentRequestPageRef (settle defaults 0 (Rejected offline) first_page_loading) = None"
  by (simp add: handler_defs sample_defs Let_def)

subsection \<open>\<open>retry\<close>\<close>

text \<open>
  \<open>retry\<close> does nothing without an error; with one, in an idle enabled hook, it requests
  \<open>currentPage\<close>, the last page that loaded, as an append load with retry count 0.
\<close>

lemma retry_without_error: "error s = None \<Longrightarrow> retry cfg s = s"
  by (simp add: retry_def)

lemma retry_requests_currentPage:
  "error s \<noteq> None \<Longrightarrow> enabledRef s \<Longrightarrow> \<not> loadingRef s \<Longrightarrow>
   currentRequestPageRef s \<noteq> Some (currentPage s) \<Longrightarrow>
   trace (retry cfg s) = trace s @ [FetchData (currentPage s) (nextController s)] \<and>
   inflight (retry cfg s) = inflight s @
     [\<lparr> req_signal = nextController s, req_page = currentPage s,
        req_isInitial = False, req_retryCount = 0 \<rparr>]"
  by (simp add: retry_def fetchWithRetry_def abortCurrent_def Let_def split: option.splits)

text \<open>
  Claim C4. The first page has loaded and the second has failed for good: the error is
  set and no timeout or request is pending. \<open>retry\<close> then requests page 0, not the page
  that failed, and when that resolves the first page's items are in \<open>data\<close> twice.
\<close>

theorem retry_requests_last_loaded_page:
  "error second_page_failed = Some ''offline'' \<and>
   timers second_page_failed = [] \<and> inflight second_page_failed = [] \<and>
   trace second_page_failed =
     [FetchData 0 0, OnSuccess [1, 2] 0,
      FetchData 1 1, SetTimeout 1 1000, FetchData 1 2, SetTimeout 2 2000,
      FetchData 1 3, SetTimeout 3 4000, FetchData 1 4, OnError ''offline''] \<and>
   trace (retry defaults second_page_failed) = trace second_page_failed @ [FetchData 0 5] \<and>
   data (runLoad defaults [Resolved page_a] (retry defaults) second_page_failed) = [1, 2, 1, 2]"
  by (simp add: handler_defs sample_defs Let_def)

subsection \<open>\<open>refresh\<close> from an empty list\<close>

text \<open>
  Claim C9. The initial load found nothing, so \<open>data\<close> is empty and \<open>loading\<close> false.
  \<open>refresh\<close> leaves \<open>data.length\<close> and \<open>loading\<close> as they were, so the initial-load
  effect does not run at the next commit and the load is the one \<open>refresh\<close> scheduled.
  \<open>reset\<close> cleared \<open>initialLoadRef\<close> and that load does not set it: when it resolves,
  again with nothing, the effect starts a second initial load. A new hook makes one call
  of \<open>fetchData\<close> and ends idle; here there are two calls after \<open>refresh\<close>, and
  \<open>loading\<close> is true again.
\<close>

theorem refresh_starts_second_initial_load:
  "snapshot nothing_found = ([], False, None, False, False, 0, Some 0) \<and>
   trace nothing_found = [FetchData 0 0, OnSuccess [] 0] \<and>
   inflight nothing_found = [] \<and>
   snapshot (runLoad defaults [Resolved empty_page] (afterRefresh defaults) nothing_found) =
     ([], True, None, False, False, 0, Some 0) \<and>
   trace (runLoad defaults [Resolved empty_page] (afterRefresh defaults) nothing_found) =
     [FetchData 0 0, OnSuccess [] 0, SetTimeout 1 0, FetchData 0 1, OnSuccess [] 0, FetchData 0 2] \<and>
   inflight (runLoad defaults [Resolved empty_page] (afterRefresh defaults) nothing_found) =
     [\<lparr> req_signal = 2, req_page = 0, req_isInitial = True, req_retryCount = 0 \<rparr>]"
  by (simp add: handler_defs sample_defs snapshot_def Let_def)

end
